theory Spec2Isabelle
  imports Main "HOL-Library.Sublist"
begin

section \<open>JavaScript strings\<close>

text \<open>
  Strings are lists of characters. The operations below are the ones
  \<^verbatim>\<open>ng_host.ts\<close> applies to paths: \<^verbatim>\<open>indexOf\<close>, \<^verbatim>\<open>substring\<close>,
  \<^verbatim>\<open>startsWith\<close>, \<^verbatim>\<open>replace\<close> with a string pattern, and the four regular
  expressions of the file, all of which are anchored at the end of the input.
\<close>

text \<open>\<^verbatim>\<open>s.indexOf(pat)\<close>: the least index at which \<open>pat\<close> occurs; \<open>None\<close> is -1.\<close>

fun indexOf :: "string \<Rightarrow> string \<Rightarrow> nat option" where
  "indexOf [] pat = (if pat = [] then Some 0 else None)"
| "indexOf (c # cs) pat =
     (if prefix pat (c # cs) then Some 0 else map_option Suc (indexOf cs pat))"

definition startsWith :: "string \<Rightarrow> string \<Rightarrow> bool" where
  "startsWith s p = prefix p s"

text \<open>\<^verbatim>\<open>s.substring(i)\<close> for an index \<open>0 \<le> i\<close>.\<close>

definition substring :: "string \<Rightarrow> nat \<Rightarrow> string" where
  "substring s i = drop i s"

text \<open>
  The replacement text of \<^verbatim>\<open>String.prototype.replace\<close> is a template: \<^verbatim>\<open>$$\<close> stands
  for a dollar sign, \<^verbatim>\<open>$&\<close> for the matched text, a dollar sign with a backquote for
  the text before the match and a dollar sign with an apostrophe for the text after it.
  A string pattern has no capture groups, so every other use of the dollar sign is
  literal.
\<close>

fun GetSubstitution :: "string \<Rightarrow> string \<Rightarrow> string \<Rightarrow> string \<Rightarrow> string" where
  "GetSubstitution matched pre post [] = []"
| "GetSubstitution matched pre post [c] = [c]"
| "GetSubstitution matched pre post (c # d # r) =
     (if c = CHR ''$'' then
        (if d = CHR ''$'' then CHR ''$'' # GetSubstitution matched pre post r
         else if d = CHR ''&'' then matched @ GetSubstitution matched pre post r
         else if d = CHR 0x60 then pre @ GetSubstitution matched pre post r
         else if d = CHR 0x27 then post @ GetSubstitution matched pre post r
         else c # GetSubstitution matched pre post (d # r))
      else c # GetSubstitution matched pre post (d # r))"

text \<open>\<^verbatim>\<open>s.replace(pat, repl)\<close> with a string pattern: the first occurrence only.\<close>

definition replace :: "string \<Rightarrow> string \<Rightarrow> string \<Rightarrow> string" where
  "replace s pat repl =
     (case indexOf s pat of
        None \<Rightarrow> s
      | Some i \<Rightarrow>
          (let pre = take i s; post = drop (i + length pat) s
           in pre @ GetSubstitution pat pre post repl @ post))"

text \<open>\<^verbatim>\<open>s.replace(/\\/g, '/')\<close>: every backslash becomes a slash.\<close>

definition replace_backslashes :: "string \<Rightarrow> string" where
  "replace_backslashes s = map (\<lambda>c. if c = CHR 0x5C then CHR ''/'' else c) s"

text \<open>
  A regular expression \<^verbatim>\<open>/(a1|a2|...)$/\<close> whose alternatives are literal strings matches
  at the least index from which the rest of the input is one of the alternatives.
  \<open>regex_test\<close> is \<^verbatim>\<open>re.test(s)\<close>; \<open>regex_replace\<close> is \<^verbatim>\<open>s.replace(re, repl)\<close> for a
  replacement without dollar signs.
\<close>

fun regex_test :: "string list \<Rightarrow> string \<Rightarrow> bool" where
  "regex_test alts [] = ([] \<in> set alts)"
| "regex_test alts (c # cs) = ((c # cs) \<in> set alts \<or> regex_test alts cs)"

fun regex_replace :: "string list \<Rightarrow> string \<Rightarrow> string \<Rightarrow> string" where
  "regex_replace alts repl [] = (if [] \<in> set alts then repl else [])"
| "regex_replace alts repl (c # cs) =
     (if (c # cs) \<in> set alts then repl else c # regex_replace alts repl cs)"

definition EXT :: "string list" where
  "EXT = [''.ts'', ''.d.ts'', ''.js'', ''.jsx'', ''.tsx'']"

definition DTS :: "string list" where
  "DTS = [''.d.ts'']"

definition NODE_MODULES :: string where
  "NODE_MODULES = ''/node_modules/''"

definition IS_GENERATED :: "string list" where
  "IS_GENERATED = [''.ngfactory'', ''.css'', ''.css.shim'']"

section \<open>The path module\<close>

text \<open>
  \<^verbatim>\<open>ng_host.ts\<close> imports Node's \<^verbatim>\<open>path\<close> module. Its POSIX variant is embedded
  here on path segments: \<^verbatim>\<open>normalize\<close>, \<^verbatim>\<open>join\<close>, \<^verbatim>\<open>resolve\<close>, \<^verbatim>\<open>relative\<close> and
  \<^verbatim>\<open>dirname\<close>. \<^verbatim>\<open>resolve\<close> reads the working directory of the process when its
  argument is not absolute, so \<open>cwd\<close> is a parameter of it and of \<^verbatim>\<open>relative\<close>.
\<close>

text \<open>\<^verbatim>\<open>s.split(sep)\<close> for a one-character separator.\<close>

fun split :: "char \<Rightarrow> string \<Rightarrow> string list" where
  "split sep [] = [[]]"
| "split sep (c # cs) =
     (if c = sep then [] # split sep cs
      else (case split sep cs of [] \<Rightarrow> [[c]] | s # ss \<Rightarrow> (c # s) # ss))"

text \<open>\<^verbatim>\<open>parts.join(sep)\<close>.\<close>

fun join_with :: "string \<Rightarrow> string list \<Rightarrow> string" where
  "join_with sep [] = []"
| "join_with sep [p] = p"
| "join_with sep (p # q # ps) = p @ sep @ join_with sep (q # ps)"

text \<open>
  Segment normalisation: empty segments and \<^verbatim>\<open>.\<close> are dropped, \<^verbatim>\<open>..\<close> removes the
  segment before it, or is kept when there is none and the path is relative. The
  third argument is the result built so far.
\<close>

fun normalizeArray :: "string list \<Rightarrow> bool \<Rightarrow> string list \<Rightarrow> string list" where
  "normalizeArray [] allowAboveRoot res = res"
| "normalizeArray (p # ps) allowAboveRoot res =
     (if p = [] \<or> p = ''.'' then normalizeArray ps allowAboveRoot res
      else if p = ''..'' then
        (if res \<noteq> [] \<and> last res \<noteq> ''..'' then normalizeArray ps allowAboveRoot (butlast res)
         else if allowAboveRoot then normalizeArray ps allowAboveRoot (res @ [''..''])
         else normalizeArray ps allowAboveRoot res)
      else normalizeArray ps allowAboveRoot (res @ [p]))"

definition normalizeString :: "string \<Rightarrow> bool \<Rightarrow> string" where
  "normalizeString p allowAboveRoot =
     join_with ''/'' (normalizeArray (split CHR ''/'' p) allowAboveRoot [])"

definition path_normalize :: "string \<Rightarrow> string" where
  "path_normalize p =
     (if p = [] then ''.''
      else
        (let isAbsolute = (hd p = CHR ''/'');
             trailingSeparator = (last p = CHR ''/'');
             q = normalizeString p (\<not> isAbsolute)
         in if q = [] then (if isAbsolute then ''/'' else if trailingSeparator then ''./'' else ''.'')
            else (if isAbsolute then ''/'' else []) @ q @ (if trailingSeparator then ''/'' else [])))"

definition path_join :: "string list \<Rightarrow> string" where
  "path_join args =
     (let joined = join_with ''/'' (filter (\<lambda>a. a \<noteq> []) args)
      in if joined = [] then ''.'' else path_normalize joined)"

text \<open>\<^verbatim>\<open>path.resolve(p)\<close> with one argument, in a process whose working directory is \<open>cwd\<close>.\<close>

definition path_resolve :: "string \<Rightarrow> string \<Rightarrow> string" where
  "path_resolve cwd p =
     (let r1 = (if p = [] then [] else p @ ''/'');
          abs1 = (p \<noteq> [] \<and> hd p = CHR ''/'');
          r2 = (if abs1 \<or> cwd = [] then r1 else cwd @ ''/'' @ r1);
          abs2 = (abs1 \<or> (cwd \<noteq> [] \<and> hd cwd = CHR ''/''));
          q = normalizeString r2 (\<not> abs2)
      in if abs2 then CHR ''/'' # q else if q \<noteq> [] then q else ''.'')"

text \<open>The segments of a resolved path: leading and trailing empty parts are trimmed.\<close>

definition path_parts :: "string \<Rightarrow> string list" where
  "path_parts p = filter (\<lambda>s. s \<noteq> []) (split CHR ''/'' p)"

fun common_parts :: "string list \<Rightarrow> string list \<Rightarrow> nat" where
  "common_parts (a # as) (b # bs) = (if a = b then Suc (common_parts as bs) else 0)"
| "common_parts _ _ = 0"

definition path_relative :: "string \<Rightarrow> string \<Rightarrow> string \<Rightarrow> string" where
  "path_relative cwd from to =
     (let fromParts = path_parts (path_resolve cwd from);
          toParts = path_parts (path_resolve cwd to);
          samePartsLength = common_parts fromParts toParts
      in join_with ''/''
           (replicate (length fromParts - samePartsLength) ''..'' @ drop samePartsLength toParts))"

text \<open>
  \<^verbatim>\<open>path.dirname(p)\<close>: trailing slashes and the last segment are cut off, scanning from
  the end down to index 1.
\<close>

definition path_dirname :: "string \<Rightarrow> string" where
  "path_dirname p =
     (if p = [] then ''.''
      else
        (let hasRoot = (hd p = CHR ''/'');
             r = dropWhile (\<lambda>c. c = CHR ''/'') (rev (tl p));
             r' = dropWhile (\<lambda>c. c \<noteq> CHR ''/'') r
         in if r' = [] then (if hasRoot then ''/'' else ''.'')
            else if hasRoot \<and> length r' = 1 then ''//''
            else take (length r') p))"

section \<open>NgHost\<close>

text \<open>
  The fields of the class that the path computations read. \<open>NgHost_new\<close> is the
  constructor: both roots are joined with \<^verbatim>\<open>'.'\<close>, normalised, and their backslashes
  turned into slashes.
\<close>

record NgHost =
  basePath :: string
  genDir :: string
  isGenDirChildOfRootDir :: bool

definition NgHost_new :: "string \<Rightarrow> string \<Rightarrow> string \<Rightarrow> NgHost" where
  "NgHost_new cwd options_basePath options_genDir =
     (let bp = replace_backslashes (path_normalize (path_join [options_basePath, ''.'']));
          gd = replace_backslashes (path_normalize (path_join [options_genDir, ''.'']));
          genPath = path_relative cwd bp gd
      in \<lparr> basePath = bp, genDir = gd,
           isGenDirChildOfRootDir = (genPath = [] \<or> \<not> startsWith genPath ''..'') \<rparr>)"

text \<open>
  The state of one run: the \<^verbatim>\<open>assumedExists\<close> object of \<^verbatim>\<open>NodeNgHostContext\<close>, the
  context an \<^verbatim>\<open>NgHost\<close> creates when none is passed in. Every value ever stored in
  it is \<^verbatim>\<open>true\<close>, so it is the set of its keys. Names inherited from
  \<^verbatim>\<open>Object.prototype\<close> are not modelled.
\<close>

record NodeNgHostContext =
  assumedExists :: "string set"

definition assumeFileExists :: "NodeNgHostContext \<Rightarrow> string \<Rightarrow> NodeNgHostContext" where
  "assumeFileExists ctx fileName = ctx\<lparr>assumedExists := insert fileName (assumedExists ctx)\<rparr>"

text \<open>
  \<open>compilerHost_fileExists\<close> is \<^verbatim>\<open>ts.CompilerHost.fileExists\<close>, the answer of the underlying
  compiler host at the time of the call.
\<close>

definition fileExists :: "(string \<Rightarrow> bool) \<Rightarrow> NodeNgHostContext \<Rightarrow> string \<Rightarrow> bool" where
  "fileExists compilerHost_fileExists ctx fileName =
     (fileName \<in> assumedExists ctx \<or> compilerHost_fileExists fileName)"

definition dotRelative :: "string \<Rightarrow> string \<Rightarrow> string \<Rightarrow> string" where
  "dotRelative cwd from to =
     (let rPath = replace_backslashes (path_relative cwd from to)
      in if startsWith rPath ''.'' then rPath else ''./'' @ rPath)"

definition rewriteGenDirPath :: "NgHost \<Rightarrow> string \<Rightarrow> string" where
  "rewriteGenDirPath h filepath =
     (case indexOf filepath NODE_MODULES of
        Some nodeModulesIndex \<Rightarrow> path_join [genDir h, substring filepath nodeModulesIndex]
      | None \<Rightarrow> replace filepath (basePath h) (genDir h))"

text \<open>
  \<open>resolveFileToImport\<close> returns the specifier and the context after the call. An
  empty \<open>importModule\<close> is falsy, like \<^verbatim>\<open>null\<close>.
\<close>

definition resolveFileToImport ::
  "string \<Rightarrow> NgHost \<Rightarrow> (string \<Rightarrow> bool) \<Rightarrow> NodeNgHostContext \<Rightarrow> string \<Rightarrow> string \<Rightarrow> string \<times> NodeNgHostContext" where
  "resolveFileToImport cwd h compilerHost_fileExists ctx importedFile0 containingFile0 =
     (let ctx' = (if \<not> compilerHost_fileExists importedFile0 then assumeFileExists ctx importedFile0 else ctx);
          containingFile = rewriteGenDirPath h containingFile0;
          containingDir = path_dirname containingFile;
          importedFile = regex_replace EXT [] importedFile0;
          importModule = (case indexOf importedFile NODE_MODULES of
                            None \<Rightarrow> None
                          | Some nodeModulesIndex \<Rightarrow>
                              Some (substring importedFile (nodeModulesIndex + length NODE_MODULES)));
          isGeneratedFile = regex_test IS_GENERATED importedFile
      in ((if isGeneratedFile then
            (if importModule \<noteq> None \<and> importModule \<noteq> Some [] then
               dotRelative cwd containingDir (genDir h @ NODE_MODULES @ the importModule)
             else dotRelative cwd containingDir (rewriteGenDirPath h importedFile))
          else
            (if importModule \<noteq> None \<and> importModule \<noteq> Some [] then the importModule
             else if \<not> isGenDirChildOfRootDir h then
               dotRelative cwd containingDir (replace importedFile (basePath h) (genDir h))
             else dotRelative cwd containingDir importedFile)),
         ctx'))"

section \<open>Metadata\<close>

text \<open>
  The values of JavaScript that metadata can be: what \<^verbatim>\<open>JSON.parse\<close> returns, and
  \<^verbatim>\<open>undefined\<close>, which is what \<^verbatim>\<open>getMetadataFor\<close> returns for "no metadata".
  The code only asks whether a value is truthy and whether it is an empty array;
  numbers are integers here, with the one falsy number 0.
\<close>

datatype jsvalue =
    JUndefined
  | JNull
  | JBool bool
  | JNumber int
  | JString string
  | JArray "jsvalue list"
  | JObject "(string \<times> jsvalue) list"

fun truthy :: "jsvalue \<Rightarrow> bool" where
  "truthy JUndefined = False"
| "truthy JNull = False"
| "truthy (JBool b) = b"
| "truthy (JNumber n) = (n \<noteq> 0)"
| "truthy (JString s) = (s \<noteq> [])"
| "truthy (JArray xs) = True"
| "truthy (JObject kvs) = True"

text \<open>\<^verbatim>\<open>Array.isArray(v) && v.length == 0\<close>.\<close>

fun isEmptyArray :: "jsvalue \<Rightarrow> bool" where
  "isEmptyArray (JArray xs) = (length xs = 0)"
| "isEmptyArray _ = False"

datatype error =
    RelativePathRequiresContainingFile
  | SourceFileNotPresent string
  | ResourceNotFound string
  | ReadFileFailed string
  | JsonParseFailed string

text \<open>
  The collaborators of the class, as they answer at the time of a call: the compiler
  host, the file system behind \<^verbatim>\<open>fs.readFileSync\<close> (\<open>None\<close> when it throws), the
  program, the TypeScript parser, the metadata collector, \<^verbatim>\<open>JSON.parse\<close> (\<open>None\<close>
  when it throws) and \<^verbatim>\<open>ts.resolveModuleName\<close>, which is given the module name, the
  containing file and the existence check of the context, and returns the resolved
  file name if there is one. \<open>'sf\<close> is the type of parsed source files.

  \<open>getMetadataFor\<close> asks twice whether its file exists, at the start and again
  before it reads the file. \<open>host_fileExists\<close> is the answer of the compiler host to
  a question asked for the first time in a call, \<open>host_fileExists_again\<close> its answer
  to that repeated question; on a disk that does not change they are the same.
\<close>

record 'sf world =
  host_fileExists :: "string \<Rightarrow> bool"
  host_fileExists_again :: "string \<Rightarrow> bool"
  host_readFile :: "string \<Rightarrow> string option"
  fs_readFileSync :: "string \<Rightarrow> string option"
  program_getSourceFile :: "string \<Rightarrow> 'sf option"
  createSourceFile :: "string \<Rightarrow> string \<Rightarrow> 'sf"
  collector_getMetadata :: "'sf \<Rightarrow> jsvalue"
  JSON_parse :: "string \<Rightarrow> jsvalue option"
  resolveModuleName :: "string \<Rightarrow> string \<Rightarrow> (string \<Rightarrow> bool) \<Rightarrow> string option"

text \<open>\<^verbatim>\<open>Map.get\<close>: \<^verbatim>\<open>undefined\<close> for a key that is not there.\<close>

definition Map_get :: "(string \<rightharpoonup> jsvalue) \<Rightarrow> string \<Rightarrow> jsvalue" where
  "Map_get m k = (case m k of None \<Rightarrow> JUndefined | Some v \<Rightarrow> v)"

definition readMetadata :: "'sf world \<Rightarrow> (string \<rightharpoonup> jsvalue) \<Rightarrow> string \<Rightarrow> error + jsvalue" where
  "readMetadata w cache filePath =
     (if truthy (Map_get cache filePath) then Inr (Map_get cache filePath)
      else (case fs_readFileSync w filePath of
              None \<Rightarrow> Inl (ReadFileFailed filePath)
            | Some text \<Rightarrow>
                (case JSON_parse w text of
                   None \<Rightarrow> Inl (JsonParseFailed filePath)
                 | Some v \<Rightarrow> Inr v)))"

definition getMetadataFor ::
  "'sf world \<Rightarrow> NodeNgHostContext \<Rightarrow> (string \<rightharpoonup> jsvalue) \<Rightarrow> string \<Rightarrow> error + jsvalue" where
  "getMetadataFor w ctx cache filePath =
     (if \<not> fileExists (host_fileExists w) ctx filePath then Inr JUndefined
      else if regex_test DTS filePath then
        (let metadataPath = regex_replace DTS ''.metadata.json'' filePath
         in if fileExists (host_fileExists w) ctx metadataPath then
              (case readMetadata w cache metadataPath of
                 Inl e \<Rightarrow> Inl e
               | Inr metadata \<Rightarrow> Inr (if isEmptyArray metadata then JUndefined else metadata))
            else Inr JUndefined)
      else
        (case program_getSourceFile w filePath of
           None \<Rightarrow>
             (if fileExists (host_fileExists_again w) ctx filePath then
                (case fs_readFileSync w filePath of
                   None \<Rightarrow> Inl (ReadFileFailed filePath)
                 | Some sourceText \<Rightarrow>
                     Inr (collector_getMetadata w (createSourceFile w filePath sourceText)))
              else Inl (SourceFileNotPresent filePath))
         | Some sf \<Rightarrow> Inr (collector_getMetadata w sf)))"

text \<open>
  \<open>getResolverMetadata\<close> returns the metadata and the cache after the call; when
  \<open>getMetadataFor\<close> throws, nothing is stored.
\<close>

definition getResolverMetadata ::
  "'sf world \<Rightarrow> NodeNgHostContext \<Rightarrow> (string \<rightharpoonup> jsvalue) \<Rightarrow> string
     \<Rightarrow> error + (jsvalue \<times> (string \<rightharpoonup> jsvalue))" where
  "getResolverMetadata w ctx cache filePath =
     (if \<not> truthy (Map_get cache filePath) then
        (case getMetadataFor w ctx cache filePath of
           Inl e \<Rightarrow> Inl e
         | Inr metadata \<Rightarrow> Inr (metadata, cache(filePath \<mapsto> metadata)))
      else Inr (Map_get cache filePath, cache))"

section \<open>Resources and forward resolution\<close>

text \<open>
  \<^verbatim>\<open>readResource\<close> of \<^verbatim>\<open>NodeNgHostContext\<close>; the promise is its value, \<open>None\<close> when
  the host's \<^verbatim>\<open>readFile\<close> returns \<^verbatim>\<open>undefined\<close>.
\<close>

definition readResource :: "'sf world \<Rightarrow> string \<Rightarrow> error + string option" where
  "readResource w s =
     (if \<not> host_fileExists w s then Inl (ResourceNotFound s) else Inr (host_readFile w s))"

definition loadResource :: "'sf world \<Rightarrow> string \<Rightarrow> error + string option" where
  "loadResource w filePath = readResource w filePath"

text \<open>
  \<open>resolveImportToFile\<close>: the containing file is \<open>None\<close> when the caller passes
  \<^verbatim>\<open>undefined\<close> or \<^verbatim>\<open>null\<close>; the result is \<open>None\<close> for \<^verbatim>\<open>null\<close>.
\<close>

definition resolveImportToFile ::
  "NgHost \<Rightarrow> 'sf world \<Rightarrow> NodeNgHostContext \<Rightarrow> string \<Rightarrow> string option \<Rightarrow> error + string option" where
  "resolveImportToFile h w ctx m containingFile0 =
     (if containingFile0 = None \<or> containingFile0 = Some [] then
        (if indexOf m ''.'' = Some 0 then Inl RelativePathRequiresContainingFile
         else
           Inr (resolveModuleName w (regex_replace EXT [] m)
                  (replace_backslashes (path_join [basePath h, ''index.ts'']))
                  (fileExists (host_fileExists w) ctx)))
      else
        Inr (resolveModuleName w (regex_replace EXT [] m)
               (replace_backslashes (the containingFile0))
               (fileExists (host_fileExists w) ctx)))"

section \<open>A run of one instance\<close>

text \<open>
  The mutable state of an \<^verbatim>\<open>NgHost\<close> with its default context, and the calls a
  compilation makes on the two objects. Each call of a run comes with the answers of
  the collaborators at that time, so files may appear and disappear between calls.
\<close>

record host_state =
  ngContext :: NodeNgHostContext
  resolverCache :: "string \<rightharpoonup> jsvalue"

datatype call =
    ResolveImportToFile string "string option"
  | ResolveFileToImport string string
  | GetMetadataFor string
  | ReadMetadata string
  | LoadResource string
  | GetResolverMetadata string
  | FileExists string
  | AssumeFileExists string

fun step :: "string \<Rightarrow> NgHost \<Rightarrow> host_state \<Rightarrow> 'sf world \<times> call \<Rightarrow> host_state" where
  "step cwd h st (w, ResolveFileToImport importedFile containingFile) =
     st\<lparr>ngContext :=
          snd (resolveFileToImport cwd h (host_fileExists w) (ngContext st) importedFile containingFile)\<rparr>"
| "step cwd h st (w, GetResolverMetadata filePath) =
     (case getResolverMetadata w (ngContext st) (resolverCache st) filePath of
        Inl e \<Rightarrow> st
      | Inr (metadata, cache') \<Rightarrow> st\<lparr>resolverCache := cache'\<rparr>)"
| "step cwd h st (w, AssumeFileExists fileName) =
     st\<lparr>ngContext := assumeFileExists (ngContext st) fileName\<rparr>"
| "step cwd h st (w, _) = st"

definition run :: "string \<Rightarrow> NgHost \<Rightarrow> host_state \<Rightarrow> ('sf world \<times> call) list \<Rightarrow> host_state" where
  "run cwd h st calls = foldl (step cwd h) st calls"

section \<open>The module id in the words of the specification\<close>

text \<open>
  The specification describes the module id of a path as everything after the last
  \<^verbatim>\<open>/node_modules/\<close> marker. This is that description, to be compared with what
  \<open>resolveFileToImport\<close> computes.
\<close>

fun lastIndexOf :: "string \<Rightarrow> string \<Rightarrow> nat option" where
  "lastIndexOf [] pat = (if pat = [] then Some 0 else None)"
| "lastIndexOf (c # cs) pat =
     (case lastIndexOf cs pat of
        Some i \<Rightarrow> Some (Suc i)
      | None \<Rightarrow> if prefix pat (c # cs) then Some 0 else None)"

definition module_id_after_last_marker :: "string \<Rightarrow> string option" where
  "module_id_after_last_marker p =
     (case lastIndexOf p NODE_MODULES of
        None \<Rightarrow> None
      | Some i \<Rightarrow> Some (drop (i + length NODE_MODULES) p))"

section \<open>An in-memory world\<close>

text \<open>
  Collaborators backed by maps, for evaluating the operations at concrete inputs:
  \<open>files\<close> is the content of the disk, which the compiler host and \<^verbatim>\<open>fs\<close> both read,
  and \<open>program\<close> the source text of the files of the program. A parsed source file
  is its text; the collector finds no metadata in an empty text; \<^verbatim>\<open>JSON.parse\<close>
  knows the two texts \<^verbatim>\<open>[]\<close> and \<^verbatim>\<open>{}\<close>; module resolution looks beside the
  containing file, then for a package below \<^verbatim>\<open>/proj/node_modules\<close>.
\<close>

definition memory_world :: "(string \<rightharpoonup> string) \<Rightarrow> (string \<rightharpoonup> string) \<Rightarrow> string world" where
  "memory_world files program =
     \<lparr> host_fileExists = (\<lambda>f. files f \<noteq> None),
       host_fileExists_again = (\<lambda>f. files f \<noteq> None),
       host_readFile = files,
       fs_readFileSync = files,
       program_getSourceFile = program,
       createSourceFile = (\<lambda>f text. text),
       collector_getMetadata = (\<lambda>sf. if sf = [] then JUndefined else JObject [(''source'', JString sf)]),
       JSON_parse = (\<lambda>t. if t = ''[]'' then Some (JArray []) else if t = ''{}'' then Some (JObject []) else None),
       resolveModuleName = (\<lambda>m containingFile exists.
          if exists (path_dirname containingFile @ ''/'' @ m @ ''.ts'')
          then Some (path_dirname containingFile @ ''/'' @ m @ ''.ts'')
          else if exists (''/proj/node_modules/'' @ m @ ''/index.d.ts'')
          then Some (''/proj/node_modules/'' @ m @ ''/index.d.ts'')
          else None) \<rparr>"

text \<open>
  The configuration of the scenarios, a disk without files, and the state of a new
  \<^verbatim>\<open>NgHost\<close>: nothing assumed, nothing cached.
\<close>

definition proj_host :: NgHost where
  "proj_host = NgHost_new ''/'' ''/proj/src'' ''/proj/src/gen''"

definition empty_disk :: "string world" where
  "empty_disk = memory_world Map.empty Map.empty"

definition initial_state :: host_state where
  "initial_state = \<lparr> ngContext = \<lparr> assumedExists = {} \<rparr>, resolverCache = Map.empty \<rparr>"

text \<open>
  Three disks: one with two source files that are not part of the program, one with a
  declaration file and a metadata file beside it that holds the empty array, and one
  with the declaration file alone.
\<close>

definition source_disk :: "string world" where
  "source_disk =
     memory_world [''/proj/src/a.ts'' \<mapsto> ''export class A {}'',
                   ''/proj/src/util.ts'' \<mapsto> ''export class U {}''] Map.empty"

definition sidecar_disk :: "string world" where
  "sidecar_disk =
     memory_world [''/proj/lib/index.d.ts'' \<mapsto> ''export declare class L {}'',
                   ''/proj/lib/index.metadata.json'' \<mapsto> ''[]''] Map.empty"

definition no_sidecar_disk :: "string world" where
  "no_sidecar_disk =
     memory_world [''/proj/lib/index.d.ts'' \<mapsto> ''export declare class L {}''] Map.empty"

text \<open>
  A disk that changes during a call: the source files are there when the compiler host
  is asked first, and gone when it is asked again.
\<close>

definition vanishing_disk :: "string world" where
  "vanishing_disk = source_disk\<lparr>host_fileExists_again := (\<lambda>f. False)\<rparr>"

section \<open>Paths in normal form\<close>

text \<open>
  An absolute path in normal form: a slash, then segments separated by single slashes,
  none of them empty, \<^verbatim>\<open>.\<close> or \<^verbatim>\<open>..\<close>. On such paths \<^verbatim>\<open>path.join\<close> is concatenation.
\<close>

definition is_segment :: "string \<Rightarrow> bool" where
  "is_segment s = (s \<noteq> [] \<and> s \<noteq> ''.'' \<and> s \<noteq> ''..'')"

definition is_clean_absolute :: "string \<Rightarrow> bool" where
  "is_clean_absolute p =
     (p \<noteq> [] \<and> hd p = CHR ''/'' \<and> list_all is_segment (split CHR ''/'' (tl p)))"

section \<open>Absolute paths do not read the working directory\<close>

lemma path_resolve_absolute:
  "hd p = CHR ''/'' \<Longrightarrow> p \<noteq> [] \<Longrightarrow>
   path_resolve cwd p = CHR ''/'' # normalizeString (p @ ''/'') False"
  by (simp add: path_resolve_def)

lemma path_relative_absolute:
  assumes "hd a = CHR ''/''" "a \<noteq> []" "hd b = CHR ''/''" "b \<noteq> []"
  shows "path_relative cwd a b = path_relative [] a b"
  unfolding path_relative_def path_resolve_absolute[OF assms(1,2)]
    path_resolve_absolute[OF assms(3,4)] ..

lemma dotRelative_absolute:
  assumes "hd a = CHR ''/''" "a \<noteq> []" "hd b = CHR ''/''" "b \<noteq> []"
  shows "dotRelative cwd a b = dotRelative [] a b"
  unfolding dotRelative_def path_relative_absolute[OF assms, of cwd] ..

section \<open>The scenario with genDir below basePath\<close>

lemma NgHost_new_proj:
  "NgHost_new cwd ''/proj/src'' ''/proj/src/gen'' =
   \<lparr>basePath = ''/proj/src'', genDir = ''/proj/src/gen'', isGenDirChildOfRootDir = True\<rparr>"
proof -
  have bp: "replace_backslashes (path_normalize (path_join [''/proj/src'', ''.''])) = ''/proj/src''"
    by code_simp
  have gd: "replace_backslashes (path_normalize (path_join [''/proj/src/gen'', ''.''])) = ''/proj/src/gen''"
    by code_simp
  have rel: "path_relative cwd ''/proj/src'' ''/proj/src/gen'' = path_relative [] ''/proj/src'' ''/proj/src/gen''"
    by (rule path_relative_absolute) simp_all
  have gen: "path_relative [] ''/proj/src'' ''/proj/src/gen'' = ''gen''"
    by code_simp
  have child: "\<not> startsWith ''gen'' ''..''"
    by code_simp
  show ?thesis
    unfolding NgHost_new_def bp gd Let_def rel gen using child by simp
qed

text \<open>
  C1, as the code has it. With basePath \<^verbatim>\<open>/proj/src\<close> and genDir \<^verbatim>\<open>/proj/src/gen\<close>,
  reverse resolution of \<^verbatim>\<open>/proj/src/app/app.component\<close> from the containing file
  \<^verbatim>\<open>/proj/src/gen/app/app.component.ngfactory\<close> returns
  \<^verbatim>\<open>../../../app/app.component\<close>, whatever the working directory, the answers of the
  compiler host and the context: the containing file is relocated to
  \<^verbatim>\<open>/proj/src/gen/gen/app/app.component.ngfactory\<close>, the imported file is left where
  it is, and the specifier is the relative path from the one directory to the other.
\<close>

theorem resolveFileToImport_child_scenario:
  "fst (resolveFileToImport cwd (NgHost_new cwd ''/proj/src'' ''/proj/src/gen'') hf ctx
         ''/proj/src/app/app.component'' ''/proj/src/gen/app/app.component.ngfactory'')
   = ''../../../app/app.component''"
proof -
  let ?h = "\<lparr>basePath = ''/proj/src'', genDir = ''/proj/src/gen'', isGenDirChildOfRootDir = True\<rparr>"
  have dir: "path_dirname (rewriteGenDirPath ?h ''/proj/src/gen/app/app.component.ngfactory'')
               = ''/proj/src/gen/gen/app''"
    by code_simp
  have ext: "regex_replace EXT [] ''/proj/src/app/app.component'' = ''/proj/src/app/app.component''"
    by code_simp
  have nm: "indexOf ''/proj/src/app/app.component'' NODE_MODULES = None"
    by code_simp
  have gen: "\<not> regex_test IS_GENERATED ''/proj/src/app/app.component''"
    by code_simp
  have rel: "dotRelative cwd ''/proj/src/gen/gen/app'' ''/proj/src/app/app.component''
               = dotRelative [] ''/proj/src/gen/gen/app'' ''/proj/src/app/app.component''"
    by (rule dotRelative_absolute) simp_all
  have res: "dotRelative [] ''/proj/src/gen/gen/app'' ''/proj/src/app/app.component''
               = ''../../../app/app.component''"
    by code_simp
  show ?thesis
    unfolding NgHost_new_proj resolveFileToImport_def Let_def dir ext nm
    using gen rel res by simp
qed

theorem resolveFileToImport_child_scenario_witness:
  "fst (resolveFileToImport ''/'' (NgHost_new ''/'' ''/proj/src'' ''/proj/src/gen'') (\<lambda>f. False)
         \<lparr>assumedExists = {}\<rparr>
         ''/proj/src/app/app.component'' ''/proj/src/gen/app/app.component.ngfactory'')
   = ''../../../app/app.component''"
  by (rule resolveFileToImport_child_scenario)

text \<open>
  C1, as the specification has it: the specifier \<^verbatim>\<open>./app.component\<close> is not what the
  call returns.
\<close>

theorem resolveFileToImport_child_scenario_counterexample:
  "fst (resolveFileToImport ''/'' (NgHost_new ''/'' ''/proj/src'' ''/proj/src/gen'') (\<lambda>f. False)
         \<lparr>assumedExists = {}\<rparr>
         ''/proj/src/app/app.component'' ''/proj/src/gen/app/app.component.ngfactory'')
   \<noteq> ''./app.component''"
  by code_simp

section \<open>The four cases of reverse resolution\<close>

text \<open>
  The same configuration, with the containing file given by its path in the source
  tree: an ordinary source file, a generated file, an ordinary file of a package and
  a generated file of a package.
\<close>

lemma resolveFileToImport_source:
  "fst (resolveFileToImport ''/'' proj_host (\<lambda>f. True) \<lparr>assumedExists = {}\<rparr>
         ''/proj/src/app/b.ts'' ''/proj/src/app/a.ngfactory.ts'') = ''../../app/b''"
  by code_simp

lemma resolveFileToImport_generated:
  "fst (resolveFileToImport ''/'' proj_host (\<lambda>f. True) \<lparr>assumedExists = {}\<rparr>
         ''/proj/src/app/b.ngfactory.ts'' ''/proj/src/app/a.ngfactory.ts'') = ''./b.ngfactory''"
  by code_simp

lemma resolveFileToImport_package:
  "fst (resolveFileToImport ''/'' proj_host (\<lambda>f. True) \<lparr>assumedExists = {}\<rparr>
         ''/proj/node_modules/lib/index.d.ts'' ''/proj/src/app/a.ngfactory.ts'') = ''lib/index''"
  by code_simp

lemma resolveFileToImport_generated_package:
  "fst (resolveFileToImport ''/'' proj_host (\<lambda>f. True) \<lparr>assumedExists = {}\<rparr>
         ''/proj/node_modules/lib/index.ngfactory.ts'' ''/proj/src/app/a.ngfactory.ts'')
   = ''../node_modules/lib/index.ngfactory''"
  by code_simp

section \<open>The assumed-existing set\<close>

lemma step_keeps_assumed:
  "x \<in> assumedExists (ngContext st) \<Longrightarrow> x \<in> assumedExists (ngContext (step cwd h st wc))"
proof (cases wc)
  case (Pair w c)
  assume x: "x \<in> assumedExists (ngContext st)"
  show ?thesis
  proof (cases c)
    case (ResolveFileToImport i f)
    with Pair x show ?thesis
      by (simp add: resolveFileToImport_def Let_def assumeFileExists_def)
  next
    case (GetResolverMetadata p)
    with Pair x show ?thesis
      by (simp split: sum.splits prod.splits)
  next
    case (AssumeFileExists f)
    with Pair x show ?thesis
      by (simp add: assumeFileExists_def)
  qed (use Pair x in simp_all)
qed

lemma run_keeps_assumed:
  "x \<in> assumedExists (ngContext st) \<Longrightarrow> x \<in> assumedExists (ngContext (run cwd h st calls))"
  unfolding run_def
  by (induction calls arbitrary: st) (simp_all add: step_keeps_assumed)

text \<open>
  C4. When the compiler host does not have the imported file, \<open>resolveFileToImport\<close>
  records that path in \<open>assumedExists\<close>. From the state it leaves, after any further
  calls on the instance and whatever the collaborators answer in between, the path is
  still in the set, and \<open>fileExists\<close> of the context is true for it even if the
  compiler host finds no file at all (\<open>hf\<close> is any answer of the host).
\<close>

theorem resolveFileToImport_assumes_missing_file:
  assumes "\<not> hf0 importedFile"
      and "ngContext st = snd (resolveFileToImport cwd h hf0 ctx importedFile containingFile)"
  shows "importedFile \<in> assumedExists (ngContext (run cwd h st calls))
       \<and> fileExists hf (ngContext (run cwd h st calls)) importedFile"
proof -
  have "importedFile \<in> assumedExists (ngContext st)"
    using assms by (simp add: resolveFileToImport_def Let_def assumeFileExists_def)
  then have "importedFile \<in> assumedExists (ngContext (run cwd h st calls))"
    by (rule run_keeps_assumed)
  then show ?thesis
    by (simp add: fileExists_def)
qed

theorem resolveFileToImport_assumes_missing_file_witness:
  "\<not> host_fileExists empty_disk ''/proj/src/app/b.ngfactory.ts''
   \<and> ngContext (step ''/'' proj_host initial_state
         (empty_disk, ResolveFileToImport ''/proj/src/app/b.ngfactory.ts'' ''/proj/src/app/a.ngfactory.ts''))
       = snd (resolveFileToImport ''/'' proj_host (host_fileExists empty_disk) (ngContext initial_state)
               ''/proj/src/app/b.ngfactory.ts'' ''/proj/src/app/a.ngfactory.ts'')
   \<and> ''/proj/src/app/b.ngfactory.ts'' \<in> assumedExists (ngContext
         (run ''/'' proj_host
            (step ''/'' proj_host initial_state
               (empty_disk, ResolveFileToImport ''/proj/src/app/b.ngfactory.ts'' ''/proj/src/app/a.ngfactory.ts''))
            [(empty_disk, GetResolverMetadata ''/proj/src/app/b.ngfactory.ts''),
             (empty_disk, AssumeFileExists ''/proj/src/app/c.ngfactory.ts''),
             (empty_disk, LoadResource ''/proj/src/app/b.ngfactory.ts'')]))
   \<and> fileExists (\<lambda>f. False) (ngContext
         (run ''/'' proj_host
            (step ''/'' proj_host initial_state
               (empty_disk, ResolveFileToImport ''/proj/src/app/b.ngfactory.ts'' ''/proj/src/app/a.ngfactory.ts''))
            [(empty_disk, GetResolverMetadata ''/proj/src/app/b.ngfactory.ts''),
             (empty_disk, AssumeFileExists ''/proj/src/app/c.ngfactory.ts''),
             (empty_disk, LoadResource ''/proj/src/app/b.ngfactory.ts'')]))
       ''/proj/src/app/b.ngfactory.ts''"
proof -
  have missing: "\<not> host_fileExists empty_disk ''/proj/src/app/b.ngfactory.ts''"
    by (simp add: empty_disk_def memory_world_def)
  have after: "ngContext (step ''/'' proj_host initial_state
         (empty_disk, ResolveFileToImport ''/proj/src/app/b.ngfactory.ts'' ''/proj/src/app/a.ngfactory.ts''))
       = snd (resolveFileToImport ''/'' proj_host (host_fileExists empty_disk) (ngContext initial_state)
               ''/proj/src/app/b.ngfactory.ts'' ''/proj/src/app/a.ngfactory.ts'')"
    by simp
  show ?thesis
    using missing after resolveFileToImport_assumes_missing_file[OF missing after] by blast
qed

section \<open>The specifier does not depend on the files\<close>

text \<open>
  C9. For the same working directory, configuration, imported file and containing file,
  \<open>resolveFileToImport\<close> returns the same specifier whatever the compiler host answers
  and whatever the context holds. The host's answer decides only whether the imported
  file is added to \<open>assumedExists\<close>.
\<close>

theorem resolveFileToImport_specifier_ignores_files:
  "fst (resolveFileToImport cwd h hf1 ctx1 importedFile containingFile)
     = fst (resolveFileToImport cwd h hf2 ctx2 importedFile containingFile)
   \<and> snd (resolveFileToImport cwd h hf1 ctx1 importedFile containingFile)
     = (if hf1 importedFile then ctx1 else assumeFileExists ctx1 importedFile)"
  by (simp add: resolveFileToImport_def Let_def)

theorem resolveFileToImport_specifier_ignores_files_witness:
  "fst (resolveFileToImport ''/'' proj_host (\<lambda>f. False) \<lparr>assumedExists = {}\<rparr>
          ''/proj/src/app/b.ts'' ''/proj/src/app/a.ngfactory.ts'')
     = fst (resolveFileToImport ''/'' proj_host (\<lambda>f. True) \<lparr>assumedExists = {''/proj/src/app/b.ts''}\<rparr>
          ''/proj/src/app/b.ts'' ''/proj/src/app/a.ngfactory.ts'')"
  using resolveFileToImport_specifier_ignores_files
    [of "''/''" proj_host "\<lambda>f. False" "\<lparr>assumedExists = {}\<rparr>" "''/proj/src/app/b.ts''"
        "''/proj/src/app/a.ngfactory.ts''" "\<lambda>f. True" "\<lparr>assumedExists = {''/proj/src/app/b.ts''}\<rparr>"]
  by (rule conjunct1)

section \<open>Resources\<close>

text \<open>
  C10. For a path that is in \<open>assumedExists\<close> and that the compiler host does not
  have, \<open>fileExists\<close> of the context is true and \<open>loadResource\<close> fails with the
  resource-not-found error for that path: \<open>readResource\<close> asks the host only.
\<close>

theorem loadResource_ignores_assumed_files:
  "fileName \<in> assumedExists ctx \<Longrightarrow> \<not> host_fileExists w fileName \<Longrightarrow>
   fileExists (host_fileExists w) ctx fileName
   \<and> loadResource w fileName = Inl (ResourceNotFound fileName)"
  by (simp add: fileExists_def loadResource_def readResource_def)

theorem loadResource_ignores_assumed_files_witness:
  "''/proj/src/app/a.html'' \<in> assumedExists (assumeFileExists \<lparr>assumedExists = {}\<rparr> ''/proj/src/app/a.html'')
   \<and> \<not> host_fileExists empty_disk ''/proj/src/app/a.html''
   \<and> fileExists (host_fileExists empty_disk)
        (assumeFileExists \<lparr>assumedExists = {}\<rparr> ''/proj/src/app/a.html'') ''/proj/src/app/a.html''
   \<and> loadResource empty_disk ''/proj/src/app/a.html'' = Inl (ResourceNotFound ''/proj/src/app/a.html'')"
proof -
  have recorded: "''/proj/src/app/a.html'' \<in> assumedExists (assumeFileExists \<lparr>assumedExists = {}\<rparr> ''/proj/src/app/a.html'')"
    by (simp add: assumeFileExists_def)
  have missing: "\<not> host_fileExists empty_disk ''/proj/src/app/a.html''"
    by (simp add: empty_disk_def memory_world_def)
  show ?thesis
    using recorded missing loadResource_ignores_assumed_files[OF recorded missing] by blast
qed

section \<open>Metadata lookup\<close>

text \<open>
  C5, as the code has it. For every path for which \<open>fileExists\<close> of the context is
  false, \<open>getMetadataFor\<close> returns \<^verbatim>\<open>undefined\<close> and raises nothing; an ordinary
  source file that is neither in the program nor on disk, and not assumed to exist, is
  such a path. The "not present in program" error is raised exactly for an ordinary
  source file that is not in the program and for which \<open>fileExists\<close> is true at the
  start of the call and false when it is asked again; the error names that path. When
  both answers are true and the text of such a file cannot be read, the call fails with
  the error of \<^verbatim>\<open>readFile\<close>.
\<close>

theorem getMetadataFor_absence_not_error:
  "(\<not> fileExists (host_fileExists w) ctx p \<longrightarrow> getMetadataFor w ctx cache p = Inr JUndefined)
   \<and> (getMetadataFor w ctx cache p = Inl (SourceFileNotPresent q) \<longleftrightarrow>
        q = p \<and> \<not> regex_test DTS p \<and> program_getSourceFile w p = None
        \<and> fileExists (host_fileExists w) ctx p
        \<and> \<not> fileExists (host_fileExists_again w) ctx p)
   \<and> (\<not> regex_test DTS p \<longrightarrow> program_getSourceFile w p = None \<longrightarrow>
        fileExists (host_fileExists w) ctx p \<longrightarrow>
        fileExists (host_fileExists_again w) ctx p \<longrightarrow>
        fs_readFileSync w p = None \<longrightarrow>
        getMetadataFor w ctx cache p = Inl (ReadFileFailed p))"
  by (auto simp: getMetadataFor_def readMetadata_def Let_def
      split: sum.splits option.splits if_splits)

theorem getMetadataFor_absence_not_error_witness:
  "\<not> fileExists (host_fileExists empty_disk) \<lparr>assumedExists = {}\<rparr> ''/proj/src/jquery.ts''
   \<and> getMetadataFor empty_disk \<lparr>assumedExists = {}\<rparr> Map.empty ''/proj/src/jquery.ts'' = Inr JUndefined
   \<and> \<not> regex_test DTS ''/proj/src/a.ts''
   \<and> program_getSourceFile vanishing_disk ''/proj/src/a.ts'' = None
   \<and> fileExists (host_fileExists vanishing_disk) \<lparr>assumedExists = {}\<rparr> ''/proj/src/a.ts''
   \<and> \<not> fileExists (host_fileExists_again vanishing_disk) \<lparr>assumedExists = {}\<rparr> ''/proj/src/a.ts''
   \<and> getMetadataFor vanishing_disk \<lparr>assumedExists = {}\<rparr> Map.empty ''/proj/src/a.ts''
       = Inl (SourceFileNotPresent ''/proj/src/a.ts'')
   \<and> \<not> regex_test DTS ''/proj/src/b.ngfactory.ts''
   \<and> program_getSourceFile empty_disk ''/proj/src/b.ngfactory.ts'' = None
   \<and> fileExists (host_fileExists empty_disk)
        \<lparr>assumedExists = {''/proj/src/b.ngfactory.ts''}\<rparr> ''/proj/src/b.ngfactory.ts''
   \<and> fileExists (host_fileExists_again empty_disk)
        \<lparr>assumedExists = {''/proj/src/b.ngfactory.ts''}\<rparr> ''/proj/src/b.ngfactory.ts''
   \<and> fs_readFileSync empty_disk ''/proj/src/b.ngfactory.ts'' = None
   \<and> getMetadataFor empty_disk \<lparr>assumedExists = {''/proj/src/b.ngfactory.ts''}\<rparr> Map.empty
        ''/proj/src/b.ngfactory.ts''
       = Inl (ReadFileFailed ''/proj/src/b.ngfactory.ts'')"
proof -
  have absent: "\<not> fileExists (host_fileExists empty_disk) \<lparr>assumedExists = {}\<rparr> ''/proj/src/jquery.ts''"
    by (simp add: fileExists_def empty_disk_def memory_world_def)
  have ordinary_a: "\<not> regex_test DTS ''/proj/src/a.ts''"
    by code_simp
  have no_sf_a: "program_getSourceFile vanishing_disk ''/proj/src/a.ts'' = None"
    by (simp add: vanishing_disk_def source_disk_def memory_world_def)
  have first: "fileExists (host_fileExists vanishing_disk) \<lparr>assumedExists = {}\<rparr> ''/proj/src/a.ts''"
    by (simp add: fileExists_def vanishing_disk_def source_disk_def memory_world_def)
  have again: "\<not> fileExists (host_fileExists_again vanishing_disk) \<lparr>assumedExists = {}\<rparr> ''/proj/src/a.ts''"
    by (simp add: fileExists_def vanishing_disk_def)
  have ordinary_b: "\<not> regex_test DTS ''/proj/src/b.ngfactory.ts''"
    by code_simp
  have no_sf_b: "program_getSourceFile empty_disk ''/proj/src/b.ngfactory.ts'' = None"
    by (simp add: empty_disk_def memory_world_def)
  have assumed: "fileExists (host_fileExists empty_disk)
       \<lparr>assumedExists = {''/proj/src/b.ngfactory.ts''}\<rparr> ''/proj/src/b.ngfactory.ts''"
    by (simp add: fileExists_def)
  have assumed_again: "fileExists (host_fileExists_again empty_disk)
       \<lparr>assumedExists = {''/proj/src/b.ngfactory.ts''}\<rparr> ''/proj/src/b.ngfactory.ts''"
    by (simp add: fileExists_def)
  have no_text: "fs_readFileSync empty_disk ''/proj/src/b.ngfactory.ts'' = None"
    by (simp add: empty_disk_def memory_world_def)
  show ?thesis
    using absent ordinary_a no_sf_a first again ordinary_b no_sf_b assumed assumed_again no_text
      getMetadataFor_absence_not_error
        [of empty_disk "\<lparr>assumedExists = {}\<rparr>" "''/proj/src/jquery.ts''" Map.empty]
      getMetadataFor_absence_not_error
        [of vanishing_disk "\<lparr>assumedExists = {}\<rparr>" "''/proj/src/a.ts''" Map.empty "''/proj/src/a.ts''"]
      getMetadataFor_absence_not_error
        [of empty_disk "\<lparr>assumedExists = {''/proj/src/b.ngfactory.ts''}\<rparr>"
            "''/proj/src/b.ngfactory.ts''" Map.empty]
    by blast
qed

text \<open>
  C5, as the specification has it: an ordinary source file that is neither in the
  program nor on disk should raise the fatal error. On an empty disk, which stays
  empty, with nothing assumed, \<open>getMetadataFor\<close> returns \<^verbatim>\<open>undefined\<close> for such a path.
\<close>

theorem getMetadataFor_missing_source_counterexample:
  "\<not> regex_test DTS ''/proj/src/missing.ts''
   \<and> program_getSourceFile empty_disk ''/proj/src/missing.ts'' = None
   \<and> \<not> host_fileExists empty_disk ''/proj/src/missing.ts''
   \<and> \<not> host_fileExists_again empty_disk ''/proj/src/missing.ts''
   \<and> fs_readFileSync empty_disk ''/proj/src/missing.ts'' = None
   \<and> getMetadataFor empty_disk \<lparr>assumedExists = {}\<rparr> Map.empty ''/proj/src/missing.ts'' = Inr JUndefined"
proof -
  have "\<not> regex_test DTS ''/proj/src/missing.ts''"
    by code_simp
  then show ?thesis
    by (simp add: getMetadataFor_def fileExists_def empty_disk_def memory_world_def)
qed

lemma step_keeps_entry:
  assumes "snd wc \<noteq> GetResolverMetadata k"
  shows "resolverCache (step cwd h st wc) k = resolverCache st k"
proof (cases wc)
  case (Pair w c)
  show ?thesis
  proof (cases c)
    case (GetResolverMetadata q)
    with Pair assms have "q \<noteq> k"
      by simp
    with Pair GetResolverMetadata show ?thesis
      by (auto simp: getResolverMetadata_def split: sum.splits prod.splits if_splits)
  qed (use Pair in simp_all)
qed

lemma run_keeps_entry:
  "list_all (\<lambda>wc. snd wc \<noteq> GetResolverMetadata k) calls \<Longrightarrow>
   resolverCache (run cwd h st calls) k = resolverCache st k"
  unfolding run_def
  by (induction calls arbitrary: st) (simp_all add: step_keeps_entry)

text \<open>
  C8. Take the state of an instance after any run of calls from its construction, the
  private \<open>getResolverMetadata\<close> included, as long as that one is not called on the
  path of the metadata file itself. For a declaration file whose metadata file exists,
  is read, and parses to the empty array, \<open>getMetadataFor\<close> returns \<^verbatim>\<open>undefined\<close>; and
  so it does, in any state, for a declaration file that has no metadata file beside it.
\<close>

theorem getMetadataFor_empty_sidecar:
  assumes "regex_test DTS p"
      and "list_all (\<lambda>wc. snd wc \<noteq> GetResolverMetadata (regex_replace DTS ''.metadata.json'' p)) calls"
      and "st = run cwd h initial_state calls"
      and "fileExists (host_fileExists w) (ngContext st) (regex_replace DTS ''.metadata.json'' p)"
      and "fs_readFileSync w (regex_replace DTS ''.metadata.json'' p) = Some text"
      and "JSON_parse w text = Some (JArray [])"
      and "\<not> fileExists (host_fileExists w') ctx' (regex_replace DTS ''.metadata.json'' p)"
  shows "getMetadataFor w (ngContext st) (resolverCache st) p = Inr JUndefined
       \<and> getMetadataFor w' ctx' cache' p = Inr JUndefined"
proof -
  have "resolverCache st (regex_replace DTS ''.metadata.json'' p)
          = resolverCache initial_state (regex_replace DTS ''.metadata.json'' p)"
    unfolding assms(3) using assms(2) by (rule run_keeps_entry)
  then have "\<not> truthy (Map_get (resolverCache st) (regex_replace DTS ''.metadata.json'' p))"
    by (simp add: initial_state_def Map_get_def)
  with assms(1,4,5,6,7) show ?thesis
    by (simp add: getMetadataFor_def readMetadata_def Let_def)
qed

theorem getMetadataFor_empty_sidecar_witness:
  "regex_test DTS ''/proj/lib/index.d.ts''
   \<and> list_all (\<lambda>wc. snd wc \<noteq> GetResolverMetadata (regex_replace DTS ''.metadata.json'' ''/proj/lib/index.d.ts''))
        [(sidecar_disk, GetResolverMetadata ''/proj/lib/index.d.ts''),
         (sidecar_disk, AssumeFileExists ''/proj/lib/other.ngfactory.ts'')]
   \<and> fileExists (host_fileExists sidecar_disk)
        (ngContext (run ''/'' proj_host initial_state
           [(sidecar_disk, GetResolverMetadata ''/proj/lib/index.d.ts''),
            (sidecar_disk, AssumeFileExists ''/proj/lib/other.ngfactory.ts'')]))
        (regex_replace DTS ''.metadata.json'' ''/proj/lib/index.d.ts'')
   \<and> fs_readFileSync sidecar_disk (regex_replace DTS ''.metadata.json'' ''/proj/lib/index.d.ts'') = Some ''[]''
   \<and> JSON_parse sidecar_disk ''[]'' = Some (JArray [])
   \<and> \<not> fileExists (host_fileExists no_sidecar_disk) \<lparr>assumedExists = {}\<rparr>
        (regex_replace DTS ''.metadata.json'' ''/proj/lib/index.d.ts'')
   \<and> getMetadataFor sidecar_disk
        (ngContext (run ''/'' proj_host initial_state
           [(sidecar_disk, GetResolverMetadata ''/proj/lib/index.d.ts''),
            (sidecar_disk, AssumeFileExists ''/proj/lib/other.ngfactory.ts'')]))
        (resolverCache (run ''/'' proj_host initial_state
           [(sidecar_disk, GetResolverMetadata ''/proj/lib/index.d.ts''),
            (sidecar_disk, AssumeFileExists ''/proj/lib/other.ngfactory.ts'')]))
        ''/proj/lib/index.d.ts'' = Inr JUndefined
   \<and> getMetadataFor no_sidecar_disk \<lparr>assumedExists = {}\<rparr> Map.empty ''/proj/lib/index.d.ts'' = Inr JUndefined"
proof -
  have side: "regex_replace DTS ''.metadata.json'' ''/proj/lib/index.d.ts'' = ''/proj/lib/index.metadata.json''"
    by code_simp
  have decl: "regex_test DTS ''/proj/lib/index.d.ts''"
    by code_simp
  have calls: "list_all (\<lambda>wc. snd wc \<noteq> GetResolverMetadata (regex_replace DTS ''.metadata.json'' ''/proj/lib/index.d.ts''))
        [(sidecar_disk, GetResolverMetadata ''/proj/lib/index.d.ts''),
         (sidecar_disk, AssumeFileExists ''/proj/lib/other.ngfactory.ts'')]"
    unfolding side by simp
  have there: "fileExists (host_fileExists sidecar_disk)
        (ngContext (run ''/'' proj_host initial_state
           [(sidecar_disk, GetResolverMetadata ''/proj/lib/index.d.ts''),
            (sidecar_disk, AssumeFileExists ''/proj/lib/other.ngfactory.ts'')]))
        (regex_replace DTS ''.metadata.json'' ''/proj/lib/index.d.ts'')"
    unfolding side by (simp add: fileExists_def sidecar_disk_def memory_world_def)
  have read: "fs_readFileSync sidecar_disk (regex_replace DTS ''.metadata.json'' ''/proj/lib/index.d.ts'') = Some ''[]''"
    unfolding side by (simp add: sidecar_disk_def memory_world_def)
  have parsed: "JSON_parse sidecar_disk ''[]'' = Some (JArray [])"
    by (simp add: sidecar_disk_def memory_world_def)
  have missing: "\<not> fileExists (host_fileExists no_sidecar_disk) \<lparr>assumedExists = {}\<rparr>
        (regex_replace DTS ''.metadata.json'' ''/proj/lib/index.d.ts'')"
    unfolding side by (simp add: fileExists_def no_sidecar_disk_def memory_world_def)
  show ?thesis
    using decl calls there read parsed missing
      getMetadataFor_empty_sidecar[OF decl calls refl there read parsed missing, of Map.empty]
    by blast
qed

section \<open>The metadata cache\<close>

lemma step_keeps_truthy:
  assumes "resolverCache st p = Some v" "truthy v"
  shows "resolverCache (step cwd h st wc) p = Some v"
proof (cases wc)
  case (Pair w c)
  show ?thesis
  proof (cases c)
    case (GetResolverMetadata q)
    with Pair assms show ?thesis
      by (auto simp: getResolverMetadata_def Map_get_def split: sum.splits prod.splits if_splits)
  qed (use Pair assms in simp_all)
qed

lemma run_keeps_truthy:
  "resolverCache st p = Some v \<Longrightarrow> truthy v \<Longrightarrow> resolverCache (run cwd h st calls) p = Some v"
  unfolding run_def
  by (induction calls arbitrary: st) (simp_all add: step_keeps_truthy)

lemma getResolverMetadata_hit:
  "cache p = Some v \<Longrightarrow> truthy v \<Longrightarrow> getResolverMetadata w ctx cache p = Inr (v, cache)"
  by (simp add: getResolverMetadata_def Map_get_def)

lemma getResolverMetadata_stores:
  "getResolverMetadata w ctx cache p = Inr (v, cache1) \<Longrightarrow> truthy v \<Longrightarrow> cache1 p = Some v"
  by (auto simp: getResolverMetadata_def Map_get_def split: if_splits sum.splits option.splits)

lemma getResolverMetadata_miss:
  "getResolverMetadata w ctx cache p = Inr (v, cache1) \<Longrightarrow> \<not> truthy (Map_get cache p) \<Longrightarrow>
   getMetadataFor w ctx cache p = Inr v \<and> cache1 = cache(p \<mapsto> v)"
  by (auto simp: getResolverMetadata_def split: sum.splits)

lemma getResolverMetadata_source_disk:
  "getResolverMetadata source_disk \<lparr>assumedExists = {}\<rparr> Map.empty ''/proj/src/a.ts''
     = Inr (JObject [(''source'', JString ''export class A {}'')],
            [''/proj/src/a.ts'' \<mapsto> JObject [(''source'', JString ''export class A {}'')]])"
proof -
  have "\<not> regex_test DTS ''/proj/src/a.ts''"
    by code_simp
  then show ?thesis
    by (simp add: getResolverMetadata_def getMetadataFor_def Map_get_def fileExists_def
        source_disk_def memory_world_def)
qed

text \<open>
  C6, as the code has it. A lookup through \<open>getResolverMetadata\<close> that finds no
  truthy entry for the path returns what \<open>getMetadataFor\<close> computes and stores it
  under the path; a lookup that finds a truthy entry returns it and leaves the cache
  as it is. Once a lookup has returned a truthy value \<open>v\<close>, the entry stays \<open>v\<close>
  through every further run of calls, and every later lookup of the path returns \<open>v\<close>
  and leaves the cache as it is, whatever the collaborators and the context are then.
\<close>

theorem getResolverMetadata_memoizes_truthy:
  assumes "getResolverMetadata w ctx cache p = Inr (v, cache1)"
  shows "(\<not> truthy (Map_get cache p) \<longrightarrow>
            getMetadataFor w ctx cache p = Inr v \<and> cache1 = cache(p \<mapsto> v))
       \<and> (truthy (Map_get cache p) \<longrightarrow> v = Map_get cache p \<and> cache1 = cache)
       \<and> (truthy v \<longrightarrow> resolverCache st = cache1 \<longrightarrow>
            resolverCache (run cwd h st calls) p = Some v
            \<and> getResolverMetadata w' ctx' (resolverCache (run cwd h st calls)) p
                = Inr (v, resolverCache (run cwd h st calls)))"
proof (intro conjI impI)
  assume "\<not> truthy (Map_get cache p)"
  with assms show "getMetadataFor w ctx cache p = Inr v" "cache1 = cache(p \<mapsto> v)"
    by (simp_all add: getResolverMetadata_miss)
next
  assume "truthy (Map_get cache p)"
  with assms show "v = Map_get cache p" "cache1 = cache"
    by (auto simp: getResolverMetadata_def)
next
  assume t: "truthy v" and st: "resolverCache st = cache1"
  have "cache1 p = Some v"
    using assms t by (rule getResolverMetadata_stores)
  with t st show kept: "resolverCache (run cwd h st calls) p = Some v"
    by (simp add: run_keeps_truthy)
  with t show "getResolverMetadata w' ctx' (resolverCache (run cwd h st calls)) p
      = Inr (v, resolverCache (run cwd h st calls))"
    by (simp add: getResolverMetadata_hit)
qed

theorem getResolverMetadata_memoizes_truthy_witness:
  "getResolverMetadata source_disk \<lparr>assumedExists = {}\<rparr> Map.empty ''/proj/src/a.ts''
     = Inr (JObject [(''source'', JString ''export class A {}'')],
            [''/proj/src/a.ts'' \<mapsto> JObject [(''source'', JString ''export class A {}'')]])
   \<and> truthy (JObject [(''source'', JString ''export class A {}'')])
   \<and> resolverCache (initial_state\<lparr>resolverCache :=
          [''/proj/src/a.ts'' \<mapsto> JObject [(''source'', JString ''export class A {}'')]]\<rparr>)
       = [''/proj/src/a.ts'' \<mapsto> JObject [(''source'', JString ''export class A {}'')]]
   \<and> getResolverMetadata empty_disk \<lparr>assumedExists = {}\<rparr>
        (resolverCache (run ''/'' proj_host
           (initial_state\<lparr>resolverCache :=
              [''/proj/src/a.ts'' \<mapsto> JObject [(''source'', JString ''export class A {}'')]]\<rparr>)
           [(empty_disk, GetResolverMetadata ''/proj/src/b.ts''),
            (empty_disk, GetResolverMetadata ''/proj/src/a.ts'')]))
        ''/proj/src/a.ts''
       = Inr (JObject [(''source'', JString ''export class A {}'')],
              resolverCache (run ''/'' proj_host
                (initial_state\<lparr>resolverCache :=
                   [''/proj/src/a.ts'' \<mapsto> JObject [(''source'', JString ''export class A {}'')]]\<rparr>)
                [(empty_disk, GetResolverMetadata ''/proj/src/b.ts''),
                 (empty_disk, GetResolverMetadata ''/proj/src/a.ts'')]))"
proof -
  have t: "truthy (JObject [(''source'', JString ''export class A {}'')])"
    by simp
  have s: "resolverCache (initial_state\<lparr>resolverCache :=
          [''/proj/src/a.ts'' \<mapsto> JObject [(''source'', JString ''export class A {}'')]]\<rparr>)
       = [''/proj/src/a.ts'' \<mapsto> JObject [(''source'', JString ''export class A {}'')]]"
    by simp
  show ?thesis
    using getResolverMetadata_source_disk t s
      getResolverMetadata_memoizes_truthy[OF getResolverMetadata_source_disk]
    by blast
qed

text \<open>
  C6, as the specification has it: every later lookup should return the cached value
  without reading again. A lookup of a file that does not exist stores \<^verbatim>\<open>undefined\<close>
  under the path; the next lookup of the path, made when the file has appeared, does
  not return the stored \<^verbatim>\<open>undefined\<close> but reads the file and returns its metadata.
\<close>

theorem getResolverMetadata_absence_counterexample:
  "getResolverMetadata empty_disk \<lparr>assumedExists = {}\<rparr> Map.empty ''/proj/src/a.ts''
     = Inr (JUndefined, [''/proj/src/a.ts'' \<mapsto> JUndefined])
   \<and> getResolverMetadata source_disk \<lparr>assumedExists = {}\<rparr> [''/proj/src/a.ts'' \<mapsto> JUndefined] ''/proj/src/a.ts''
     = Inr (JObject [(''source'', JString ''export class A {}'')],
            [''/proj/src/a.ts'' \<mapsto> JObject [(''source'', JString ''export class A {}'')]])"
proof -
  have "\<not> regex_test DTS ''/proj/src/a.ts''"
    by code_simp
  then show ?thesis
    by (simp add: getResolverMetadata_def getMetadataFor_def Map_get_def fileExists_def
        empty_disk_def source_disk_def memory_world_def)
qed

section \<open>Forward resolution without a containing file\<close>

lemma indexOf_dot: "indexOf m ''.'' = Some 0 \<longleftrightarrow> startsWith m ''.''"
  by (cases m) (auto simp: startsWith_def)

lemma proj_host_fields:
  "proj_host = \<lparr>basePath = ''/proj/src'', genDir = ''/proj/src/gen'', isGenDirChildOfRootDir = True\<rparr>"
  unfolding proj_host_def by (rule NgHost_new_proj)

lemma proj_host_index: "replace_backslashes (path_join [basePath proj_host, ''index.ts'']) = ''/proj/src/index.ts''"
  unfolding proj_host_fields by code_simp

text \<open>
  C7, as the code has it. With a containing file that is missing or empty,
  \<open>resolveImportToFile\<close> fails exactly when the specifier begins with a dot: so it
  does for every specifier that begins with \<^verbatim>\<open>./\<close> or \<^verbatim>\<open>../\<close>, and for any other
  whose first character is a dot. The error is the one that asks for a containing
  file. A specifier that does not begin with a dot is resolved, without its
  extension, from the containing file \<^verbatim>\<open>index.ts\<close> joined to basePath.
\<close>

theorem resolveImportToFile_without_containing_file:
  assumes "containingFile = None \<or> containingFile = Some []"
  shows "((\<exists>e. resolveImportToFile h w ctx m containingFile = Inl e) \<longleftrightarrow> startsWith m ''.'')
       \<and> (startsWith m ''./'' \<or> startsWith m ''../'' \<longrightarrow>
            resolveImportToFile h w ctx m containingFile = Inl RelativePathRequiresContainingFile)
       \<and> (startsWith m ''.'' \<longrightarrow>
            resolveImportToFile h w ctx m containingFile = Inl RelativePathRequiresContainingFile)
       \<and> (\<not> startsWith m ''.'' \<longrightarrow>
            resolveImportToFile h w ctx m containingFile =
              Inr (resolveModuleName w (regex_replace EXT [] m)
                     (replace_backslashes (path_join [basePath h, ''index.ts'']))
                     (fileExists (host_fileExists w) ctx)))"
proof -
  have "startsWith m ''.''" if "startsWith m ''./'' \<or> startsWith m ''../''"
    using that by (auto simp: startsWith_def prefix_def)
  with assms show ?thesis
    by (auto simp: resolveImportToFile_def indexOf_dot)
qed

theorem resolveImportToFile_without_containing_file_witness:
  "(Some [] = (None :: string option) \<or> Some [] = Some ([] :: string))
   \<and> startsWith ''./util'' ''.''
   \<and> resolveImportToFile proj_host source_disk \<lparr>assumedExists = {}\<rparr> ''./util'' (Some [])
       = Inl RelativePathRequiresContainingFile
   \<and> \<not> startsWith ''util.ts'' ''.''
   \<and> resolveImportToFile proj_host source_disk \<lparr>assumedExists = {}\<rparr> ''util.ts'' (Some [])
       = Inr (Some ''/proj/src/util.ts'')"
proof -
  have empty: "Some [] = (None :: string option) \<or> Some [] = Some ([] :: string)"
    by simp
  have rel: "startsWith ''./util'' ''.''"
    by (simp add: startsWith_def)
  have bare: "\<not> startsWith ''util.ts'' ''.''"
    by (simp add: startsWith_def)
  have ext: "regex_replace EXT [] ''util.ts'' = ''util''"
    by code_simp
  have dir: "path_dirname ''/proj/src/index.ts'' = ''/proj/src''"
    by code_simp
  have res: "resolveModuleName source_disk ''util'' ''/proj/src/index.ts''
               (fileExists (host_fileExists source_disk) \<lparr>assumedExists = {}\<rparr>)
             = Some ''/proj/src/util.ts''"
    by (simp add: source_disk_def memory_world_def dir fileExists_def)
  show ?thesis
    using empty rel bare
      resolveImportToFile_without_containing_file
        [OF empty, of proj_host source_disk "\<lparr>assumedExists = {}\<rparr>" "''./util''"]
      resolveImportToFile_without_containing_file
        [OF empty, of proj_host source_disk "\<lparr>assumedExists = {}\<rparr>" "''util.ts''"]
    unfolding ext proj_host_index res by blast
qed

text \<open>
  C7, as the specification has it: the call fails exactly when the specifier is
  relative, which is to begin with \<^verbatim>\<open>./\<close> or \<^verbatim>\<open>../\<close>. The specifiers \<^verbatim>\<open>.hidden\<close>
  and \<^verbatim>\<open>..gen/x\<close> begin with neither, and with an empty containing file the call
  fails for them and asks for a containing file.
\<close>

theorem resolveImportToFile_without_containing_file_counterexample:
  "\<not> startsWith ''.hidden'' ''./'' \<and> \<not> startsWith ''.hidden'' ''../''
   \<and> resolveImportToFile proj_host source_disk \<lparr>assumedExists = {}\<rparr> ''.hidden'' (Some [])
       = Inl RelativePathRequiresContainingFile
   \<and> \<not> startsWith ''..gen/x'' ''./'' \<and> \<not> startsWith ''..gen/x'' ''../''
   \<and> resolveImportToFile proj_host source_disk \<lparr>assumedExists = {}\<rparr> ''..gen/x'' None
       = Inl RelativePathRequiresContainingFile"
  by (simp add: startsWith_def resolveImportToFile_def)

section \<open>What indexOf finds\<close>

lemma all_le_Suc: "(\<forall>j\<le>Suc n. Q j) \<longleftrightarrow> Q 0 \<and> (\<forall>j\<le>n. Q (Suc j))"
proof
  assume "\<forall>j\<le>Suc n. Q j"
  then show "Q 0 \<and> (\<forall>j\<le>n. Q (Suc j))"
    by simp
next
  assume a: "Q 0 \<and> (\<forall>j\<le>n. Q (Suc j))"
  show "\<forall>j\<le>Suc n. Q j"
  proof (intro allI impI)
    fix j
    assume "j \<le> Suc n"
    with a show "Q j"
      by (cases j) auto
  qed
qed

text \<open>\<open>indexOf\<close> returns the first index at which the pattern occurs, if it occurs.\<close>

lemma indexOf_Some_iff:
  "indexOf s pat = Some i \<longleftrightarrow>
     i \<le> length s \<and> prefix pat (drop i s) \<and> (\<forall>j<i. \<not> prefix pat (drop j s))"
proof (induction s arbitrary: i)
  case Nil
  then show ?case by auto
next
  case (Cons c cs)
  show ?case
  proof (cases "prefix pat (c # cs)")
    case True
    then show ?thesis by (cases i) auto
  next
    case False
    show ?thesis
    proof (cases i)
      case 0
      with False show ?thesis by simp
    next
      case (Suc k)
      have "(\<forall>j<Suc k. \<not> prefix pat (drop j (c # cs))) \<longleftrightarrow> (\<forall>j<k. \<not> prefix pat (drop j cs))"
        using False by (auto simp: less_Suc_eq_0_disj)
      with False Suc Cons.IH[of k] show ?thesis by simp
    qed
  qed
qed

lemma indexOf_None_iff:
  "indexOf s pat = None \<longleftrightarrow> (\<forall>j\<le>length s. \<not> prefix pat (drop j s))"
proof (induction s)
  case Nil
  then show ?case by auto
next
  case (Cons c cs)
  then show ?case by (simp add: all_le_Suc)
qed

lemma indexOf_prefix: "prefix pat s \<Longrightarrow> indexOf s pat = Some 0"
  by (cases s) auto

lemma indexOf_short: "length s < length pat \<Longrightarrow> indexOf s pat = None"
proof (induction s)
  case Nil
  then show ?case by auto
next
  case (Cons c cs)
  then have "\<not> prefix pat (c # cs)"
    by (auto dest: prefix_length_le)
  with Cons show ?case by simp
qed

section \<open>Stripping the extension keeps the marker\<close>

lemma prefix_append_dot:
  assumes "d \<notin> set pat" and "e = [] \<or> hd e = d"
  shows "prefix pat (q @ e) \<longleftrightarrow> prefix pat q"
proof
  assume a: "prefix pat (q @ e)"
  show "prefix pat q"
  proof (rule ccontr)
    assume n: "\<not> prefix pat q"
    from a n obtain us where us: "pat = q @ us" "prefix us e"
      by (auto simp: prefix_append)
    with n have ne: "us \<noteq> []" by auto
    with us(2) have "e \<noteq> []" "hd us = hd e"
      by (auto simp: prefix_def)
    with assms(2) ne us(1) have "d \<in> set pat"
      by (cases us) auto
    with assms(1) show False by simp
  qed
next
  assume "prefix pat q"
  then show "prefix pat (q @ e)" by (rule prefix_prefix)
qed

lemma indexOf_append_ext:
  assumes "d \<notin> set pat" and "e = [] \<or> hd e = d" and "length e < length pat"
  shows "indexOf (p @ e) pat = indexOf p pat"
proof (induction p)
  case Nil
  from assms(3) have "pat \<noteq> []" by auto
  with assms(3) show ?case by (simp add: indexOf_short)
next
  case (Cons c cs)
  have "prefix pat ((c # cs) @ e) \<longleftrightarrow> prefix pat (c # cs)"
    using assms(1,2) by (rule prefix_append_dot)
  with Cons show ?case by simp
qed

lemma regex_replace_split:
  "\<exists>e. s = regex_replace alts [] s @ e \<and> (e = [] \<or> e \<in> set alts)"
proof (induction s)
  case Nil
  then show ?case by simp
next
  case (Cons c cs)
  then show ?case by (cases "c # cs \<in> set alts") auto
qed

lemma regex_replace_prefix: "prefix (regex_replace alts [] s) s"
  by (induction s) auto

lemma EXT_shape: "e \<in> set EXT \<Longrightarrow> hd e = CHR ''.'' \<and> length e < length NODE_MODULES"
  by (auto simp: EXT_def NODE_MODULES_def)

lemma indexOf_strip_EXT:
  "indexOf (regex_replace EXT [] f) NODE_MODULES = indexOf f NODE_MODULES"
proof -
  obtain e where e: "f = regex_replace EXT [] f @ e" "e = [] \<or> e \<in> set EXT"
    using regex_replace_split by blast
  have "indexOf (regex_replace EXT [] f @ e) NODE_MODULES = indexOf (regex_replace EXT [] f) NODE_MODULES"
  proof (rule indexOf_append_ext)
    show "CHR ''.'' \<notin> set NODE_MODULES"
      by (simp add: NODE_MODULES_def)
    show "e = [] \<or> hd e = CHR ''.''"
      using e(2) EXT_shape by blast
    show "length e < length NODE_MODULES"
      using e(2) EXT_shape by (auto simp: NODE_MODULES_def)
  qed
  with e(1) show ?thesis by simp
qed

lemma drop_prefix: "prefix xs ys \<Longrightarrow> prefix (drop n xs) (drop n ys)"
  by (auto simp: prefix_def)

section \<open>Imports from the dependency directory\<close>

text \<open>
  C2, as the code has it. Let the first \<^verbatim>\<open>/node_modules/\<close> marker of the imported file
  be at index \<open>i\<close>, let the path without its extension not match the generated
  pattern, and let something other than the extension follow the marker. Then
  \<open>resolveFileToImport\<close> returns what follows that first marker in the path without
  its extension. The result is an initial part of what follows the first marker in
  the imported file, so it begins with \<^verbatim>\<open>./\<close> or \<^verbatim>\<open>../\<close> only if that does.
\<close>

theorem resolveFileToImport_node_modules:
  assumes "indexOf importedFile NODE_MODULES = Some i"
      and "\<not> regex_test IS_GENERATED (regex_replace EXT [] importedFile)"
      and "drop (i + length NODE_MODULES) (regex_replace EXT [] importedFile) \<noteq> []"
  shows "fst (resolveFileToImport cwd h hf ctx importedFile containingFile)
           = drop (i + length NODE_MODULES) (regex_replace EXT [] importedFile)
       \<and> prefix (fst (resolveFileToImport cwd h hf ctx importedFile containingFile))
           (drop (i + length NODE_MODULES) importedFile)
       \<and> (startsWith (fst (resolveFileToImport cwd h hf ctx importedFile containingFile)) ''./''
            \<longrightarrow> startsWith (drop (i + length NODE_MODULES) importedFile) ''./'')
       \<and> (startsWith (fst (resolveFileToImport cwd h hf ctx importedFile containingFile)) ''../''
            \<longrightarrow> startsWith (drop (i + length NODE_MODULES) importedFile) ''../'')"
proof -
  let ?r = "fst (resolveFileToImport cwd h hf ctx importedFile containingFile)"
  have "indexOf (regex_replace EXT [] importedFile) NODE_MODULES = Some i"
    using assms(1) by (simp add: indexOf_strip_EXT)
  then have r: "?r = drop (i + length NODE_MODULES) (regex_replace EXT [] importedFile)"
    using assms(2,3) by (simp add: resolveFileToImport_def Let_def substring_def)
  have "prefix (drop (i + length NODE_MODULES) (regex_replace EXT [] importedFile))
           (drop (i + length NODE_MODULES) importedFile)"
    by (intro drop_prefix regex_replace_prefix)
  with r have p: "prefix ?r (drop (i + length NODE_MODULES) importedFile)"
    by simp
  then have "prefix m ?r \<Longrightarrow> prefix m (drop (i + length NODE_MODULES) importedFile)" for m
    by (rule prefix_order.trans[rotated])
  with r p show ?thesis
    unfolding startsWith_def by blast
qed

theorem resolveFileToImport_node_modules_witness:
  "indexOf ''/proj/node_modules/rxjs/Observable.d.ts'' NODE_MODULES = Some 5
   \<and> \<not> regex_test IS_GENERATED (regex_replace EXT [] ''/proj/node_modules/rxjs/Observable.d.ts'')
   \<and> drop (5 + length NODE_MODULES) (regex_replace EXT [] ''/proj/node_modules/rxjs/Observable.d.ts'') \<noteq> []
   \<and> fst (resolveFileToImport ''/'' proj_host (\<lambda>f. True) \<lparr>assumedExists = {}\<rparr>
          ''/proj/node_modules/rxjs/Observable.d.ts'' ''/proj/src/app/a.ngfactory.ts'') = ''rxjs/Observable''"
proof -
  have marker: "indexOf ''/proj/node_modules/rxjs/Observable.d.ts'' NODE_MODULES = Some 5"
    by code_simp
  have ordinary: "\<not> regex_test IS_GENERATED (regex_replace EXT [] ''/proj/node_modules/rxjs/Observable.d.ts'')"
    by code_simp
  have some: "drop (5 + length NODE_MODULES) (regex_replace EXT [] ''/proj/node_modules/rxjs/Observable.d.ts'') \<noteq> []"
    by code_simp
  have id: "drop (5 + length NODE_MODULES) (regex_replace EXT [] ''/proj/node_modules/rxjs/Observable.d.ts'')
              = ''rxjs/Observable''"
    by code_simp
  show ?thesis
    using marker ordinary some
      resolveFileToImport_node_modules[OF marker ordinary some, of "''/''" proj_host "\<lambda>f. True"
        "\<lparr>assumedExists = {}\<rparr>" "''/proj/src/app/a.ngfactory.ts''"]
    unfolding id by blast
qed

text \<open>
  C2, as the specification has it: the module id is what follows the last marker, and
  the result never begins with \<^verbatim>\<open>./\<close> or \<^verbatim>\<open>../\<close>. For a package nested in another
  package the call returns what follows the first marker, and for a path with a
  \<^verbatim>\<open>.\<close> segment after the marker it returns a specifier that begins with \<^verbatim>\<open>./\<close>.
\<close>

theorem resolveFileToImport_node_modules_counterexample:
  "module_id_after_last_marker ''/proj/node_modules/a/node_modules/b'' = Some ''b''
   \<and> \<not> regex_test IS_GENERATED ''/proj/node_modules/a/node_modules/b''
   \<and> fst (resolveFileToImport ''/'' proj_host (\<lambda>f. True) \<lparr>assumedExists = {}\<rparr>
          ''/proj/node_modules/a/node_modules/b'' ''/proj/src/app/a.ngfactory.ts'') = ''a/node_modules/b''
   \<and> \<not> regex_test IS_GENERATED ''/proj/node_modules/./x''
   \<and> fst (resolveFileToImport ''/'' proj_host (\<lambda>f. True) \<lparr>assumedExists = {}\<rparr>
          ''/proj/node_modules/./x'' ''/proj/src/app/a.ngfactory.ts'') = ''./x''"
  by code_simp

section \<open>Joining paths in normal form\<close>

lemma split_not_Nil: "split sep s \<noteq> []"
  by (induction s) (auto split: list.splits)

lemma join_with_Cons_head: "join_with sep ((c # x) # xs) = c # join_with sep (x # xs)"
  by (cases xs) auto

lemma join_split: "join_with [sep] (split sep s) = s"
proof (induction s)
  case Nil
  then show ?case by simp
next
  case (Cons c cs)
  obtain x xs where x: "split sep cs = x # xs"
    using split_not_Nil by (cases "split sep cs") auto
  show ?case
  proof (cases "c = sep")
    case True
    with Cons x show ?thesis by simp
  next
    case False
    with Cons x show ?thesis by (simp add: join_with_Cons_head)
  qed
qed

lemma split_append: "split sep (a @ sep # b) = split sep a @ split sep b"
  by (induction a) (auto simp: split_not_Nil split: list.splits)

lemma split_last_no_sep: "sep \<notin> set (last (split sep s))"
  by (induction s) (auto simp: split_not_Nil split: list.splits)

lemma join_last_not_Nil:
  "segs \<noteq> [] \<Longrightarrow> last segs \<noteq> [] \<Longrightarrow> join_with sep segs \<noteq> []"
  by (induction sep segs rule: join_with.induct) auto

lemma last_join:
  "segs \<noteq> [] \<Longrightarrow> last segs \<noteq> [] \<Longrightarrow> last (join_with sep segs) = last (last segs)"
proof (induction sep segs rule: join_with.induct)
  case (3 sep p q ps)
  then have "join_with sep (q # ps) \<noteq> []"
    by (intro join_last_not_Nil) auto
  with 3 show ?case by simp
qed auto

lemma join_append:
  "xs \<noteq> [] \<Longrightarrow> ys \<noteq> [] \<Longrightarrow> join_with sep (xs @ ys) = join_with sep xs @ sep @ join_with sep ys"
  by (induction sep xs rule: join_with.induct) (auto simp: neq_Nil_conv)

lemma join_not_Nil: "segs \<noteq> [] \<Longrightarrow> hd segs \<noteq> [] \<Longrightarrow> join_with sep segs \<noteq> []"
  by (induction sep segs rule: join_with.induct) auto

lemma normalizeArray_segments:
  "list_all is_segment xs \<Longrightarrow> normalizeArray (xs @ ys) a res = normalizeArray ys a (res @ xs)"
  by (induction xs arbitrary: res) (auto simp: is_segment_def)

lemma path_join_clean:
  assumes g: "is_clean_absolute g" and s: "is_clean_absolute s"
  shows "path_join [g, s] = g @ s"
proof -
  define A where "A = split CHR ''/'' (tl g)"
  define B where "B = split CHR ''/'' (tl s)"
  have gA: "g = CHR ''/'' # join_with ''/'' A" and A: "list_all is_segment A" "A \<noteq> []"
    using g by (cases g; auto simp: is_clean_absolute_def A_def join_split split_not_Nil)+
  have sB: "s = CHR ''/'' # join_with ''/'' B" and B: "list_all is_segment B" "B \<noteq> []"
    using s by (cases s; auto simp: is_clean_absolute_def B_def join_split split_not_Nil)+
  have tlg: "tl g = join_with ''/'' A" and tls: "tl s = join_with ''/'' B"
    by (simp_all add: A_def B_def join_split)
  have hdA: "hd A \<noteq> []" using A by (cases A) (auto simp: is_segment_def)
  have lastB: "last B \<noteq> []" using B by (cases B rule: rev_cases) (auto simp: is_segment_def)
  let ?joined = "g @ CHR ''/'' # s"
  have joined: "join_with ''/'' (filter (\<lambda>a. a \<noteq> []) [g, s]) = ?joined"
    using g s by (auto simp: is_clean_absolute_def)
  have sp: "split CHR ''/'' ?joined = [] # A @ [] # B"
  proof -
    have "?joined = CHR ''/'' # (tl g @ CHR ''/'' # CHR ''/'' # tl s)"
      using gA sB by simp
    then show ?thesis
      by (simp add: split_append A_def B_def)
  qed
  have na: "normalizeArray (split CHR ''/'' ?joined) False [] = A @ B"
  proof -
    have "normalizeArray ([] # A @ [] # B) False [] = normalizeArray (A @ [] # B) False []" by simp
    also have "\<dots> = normalizeArray ([] # B) False A"
      using A(1) by (simp add: normalizeArray_segments)
    also have "\<dots> = normalizeArray (B @ []) False A" by simp
    also have "\<dots> = A @ B"
      using B(1) by (simp only: normalizeArray_segments normalizeArray.simps)
    finally show ?thesis unfolding sp .
  qed
  have q: "normalizeString ?joined False = tl g @ CHR ''/'' # tl s"
    unfolding normalizeString_def na using A(2) B(2) by (simp add: join_append tlg tls)
  have lasts: "last ?joined \<noteq> CHR ''/''"
  proof -
    have "last (tl s) = last (last B)"
      unfolding tls using B(2) lastB by (rule last_join)
    moreover have "CHR ''/'' \<notin> set (last B)"
      unfolding B_def by (rule split_last_no_sep)
    moreover have "tl s \<noteq> []"
      unfolding tls using B(2) lastB by (rule join_last_not_Nil)
    ultimately have "last (tl s) \<noteq> CHR ''/''"
      using lastB last_in_set by metis
    moreover have "last ?joined = last (tl s)"
      using sB \<open>tl s \<noteq> []\<close> by (metis append_Cons last_appendR last_ConsR list.distinct(1) list.sel(3) append_Nil)
    ultimately show ?thesis by simp
  qed
  have hdj: "hd ?joined = CHR ''/''" "?joined \<noteq> []"
    using g by (auto simp: is_clean_absolute_def)
  have "path_normalize ?joined = CHR ''/'' # (tl g @ CHR ''/'' # tl s)"
    using hdj lasts by (simp add: path_normalize_def Let_def q)
  also have "\<dots> = g @ s" using gA sB tlg tls by simp
  finally show ?thesis
    unfolding path_join_def Let_def joined using hdj by simp
qed

section \<open>Relocation into genDir\<close>

lemma GetSubstitution_no_dollar:
  "CHR ''$'' \<notin> set repl \<Longrightarrow> GetSubstitution m b a repl = repl"
  by (induction m b a repl rule: GetSubstitution.induct) auto

lemma replace_first:
  "CHR ''$'' \<notin> set repl \<Longrightarrow> indexOf s pat = Some k \<Longrightarrow>
   replace s pat repl = take k s @ repl @ drop (k + length pat) s"
  by (simp add: replace_def Let_def GetSubstitution_no_dollar)

text \<open>
  C3, as the code has it. If the first \<^verbatim>\<open>/node_modules/\<close> marker of the path is at
  index \<open>i\<close>, \<open>rewriteGenDirPath\<close> joins genDir and the path from \<open>i\<close> on; when both
  are absolute paths in normal form, that is genDir followed by the path from \<open>i\<close> on.
  If the path has no marker: a path in which basePath does not occur is returned as it
  is; otherwise, for a genDir without dollar signs, the first occurrence of basePath,
  at index \<open>k\<close>, is replaced by genDir, wherever it is; in particular a leading
  basePath is replaced by genDir.
\<close>

theorem rewriteGenDirPath_relocates:
  "(indexOf filepath NODE_MODULES = Some i \<longrightarrow>
      rewriteGenDirPath h filepath = path_join [genDir h, drop i filepath]
      \<and> (is_clean_absolute (genDir h) \<longrightarrow> is_clean_absolute (drop i filepath) \<longrightarrow>
           rewriteGenDirPath h filepath = genDir h @ drop i filepath))
   \<and> (indexOf filepath NODE_MODULES = None \<longrightarrow> indexOf filepath (basePath h) = None \<longrightarrow>
        rewriteGenDirPath h filepath = filepath)
   \<and> (indexOf filepath NODE_MODULES = None \<longrightarrow> CHR ''$'' \<notin> set (genDir h) \<longrightarrow>
        indexOf filepath (basePath h) = Some k \<longrightarrow>
        rewriteGenDirPath h filepath
          = take k filepath @ genDir h @ drop (k + length (basePath h)) filepath)
   \<and> (indexOf filepath NODE_MODULES = None \<longrightarrow> CHR ''$'' \<notin> set (genDir h) \<longrightarrow>
        filepath = basePath h @ rest \<longrightarrow>
        rewriteGenDirPath h filepath = genDir h @ rest)"
proof (intro conjI impI)
  assume "indexOf filepath NODE_MODULES = Some i"
  then show joined: "rewriteGenDirPath h filepath = path_join [genDir h, drop i filepath]"
    by (simp add: rewriteGenDirPath_def substring_def)
  assume "is_clean_absolute (genDir h)" "is_clean_absolute (drop i filepath)"
  then show "rewriteGenDirPath h filepath = genDir h @ drop i filepath"
    unfolding joined by (rule path_join_clean)
next
  assume "indexOf filepath NODE_MODULES = None" "indexOf filepath (basePath h) = None"
  then show "rewriteGenDirPath h filepath = filepath"
    by (simp add: rewriteGenDirPath_def replace_def)
next
  assume "indexOf filepath NODE_MODULES = None" "CHR ''$'' \<notin> set (genDir h)"
    "indexOf filepath (basePath h) = Some k"
  then show "rewriteGenDirPath h filepath
      = take k filepath @ genDir h @ drop (k + length (basePath h)) filepath"
    by (simp add: rewriteGenDirPath_def replace_first)
next
  assume n: "indexOf filepath NODE_MODULES = None" and d: "CHR ''$'' \<notin> set (genDir h)"
    and f: "filepath = basePath h @ rest"
  from f have "indexOf filepath (basePath h) = Some 0"
    by (intro indexOf_prefix) simp
  with n d f show "rewriteGenDirPath h filepath = genDir h @ rest"
    by (simp add: rewriteGenDirPath_def replace_first)
qed

theorem rewriteGenDirPath_relocates_witness:
  "indexOf ''/proj/node_modules/lib/index.ts'' NODE_MODULES = Some 5
   \<and> is_clean_absolute (genDir proj_host)
   \<and> is_clean_absolute (drop 5 ''/proj/node_modules/lib/index.ts'')
   \<and> rewriteGenDirPath proj_host ''/proj/node_modules/lib/index.ts''
       = genDir proj_host @ ''/node_modules/lib/index.ts''
   \<and> indexOf ''/other/app/a.ts'' NODE_MODULES = None
   \<and> indexOf ''/other/app/a.ts'' (basePath proj_host) = None
   \<and> rewriteGenDirPath proj_host ''/other/app/a.ts'' = ''/other/app/a.ts''
   \<and> indexOf ''/proj/src/app/a.ts'' NODE_MODULES = None
   \<and> CHR ''$'' \<notin> set (genDir proj_host)
   \<and> ''/proj/src/app/a.ts'' = basePath proj_host @ ''/app/a.ts''
   \<and> rewriteGenDirPath proj_host ''/proj/src/app/a.ts'' = genDir proj_host @ ''/app/a.ts''"
proof -
  have m1: "indexOf ''/proj/node_modules/lib/index.ts'' NODE_MODULES = Some 5"
    by code_simp
  have g: "is_clean_absolute (genDir proj_host)"
    unfolding proj_host_fields by code_simp
  have s1: "is_clean_absolute (drop 5 ''/proj/node_modules/lib/index.ts'')"
    by code_simp
  have d1: "drop 5 ''/proj/node_modules/lib/index.ts'' = ''/node_modules/lib/index.ts''"
    by code_simp
  have m2: "indexOf ''/other/app/a.ts'' NODE_MODULES = None"
    by code_simp
  have b2: "indexOf ''/other/app/a.ts'' (basePath proj_host) = None"
    unfolding proj_host_fields by code_simp
  have m3: "indexOf ''/proj/src/app/a.ts'' NODE_MODULES = None"
    by code_simp
  have nd: "CHR ''$'' \<notin> set (genDir proj_host)"
    unfolding proj_host_fields by code_simp
  have b3: "''/proj/src/app/a.ts'' = basePath proj_host @ ''/app/a.ts''"
    unfolding proj_host_fields by simp
  show ?thesis
    using m1 g s1 m2 b2 m3 nd b3
      rewriteGenDirPath_relocates[of "''/proj/node_modules/lib/index.ts''" 5 proj_host]
      rewriteGenDirPath_relocates[of "''/other/app/a.ts''" _ proj_host]
      rewriteGenDirPath_relocates[of "''/proj/src/app/a.ts''" _ proj_host _ "''/app/a.ts''"]
    unfolding d1 by blast
qed

text \<open>
  C3, as the specification has it: a path that does not start with basePath is left
  unchanged. The path \<^verbatim>\<open>/lib/proj/src/a.ts\<close> has no marker and does not start with the
  basePath \<^verbatim>\<open>/proj/src\<close>, and the occurrence of basePath inside it is rewritten.
\<close>

theorem rewriteGenDirPath_relocates_counterexample:
  "indexOf ''/lib/proj/src/a.ts'' NODE_MODULES = None
   \<and> \<not> startsWith ''/lib/proj/src/a.ts'' (basePath proj_host)
   \<and> rewriteGenDirPath proj_host ''/lib/proj/src/a.ts'' = ''/lib/proj/src/gen/a.ts''"
  unfolding proj_host_fields by code_simp

end
